theory Spec2Isabelle
  imports Complex_Main
begin

unbundle bit_operations_syntax

section \<open>Scalars\<close>

text \<open>
  The C++ type \<^verbatim>\<open>float\<close> is modelled by \<^typ>\<open>real\<close>: every arithmetic operation is
  exact, there is no rounding, no overflow, no infinity and no NaN. The control flow of
  the program (which branch is taken, which value is stored) is kept as written. Where
  the program would go on with an infinity or a NaN (a division by zero, the root of a
  negative number), the model goes on with the value of HOL's total function; these
  places are marked at the definitions.
\<close>

definition FLT_MAX :: real where
  \<comment> \<open>\<^verbatim>\<open>std::numeric_limits<float>::max()\<close>, that is (2 - 2^-23) * 2^127.\<close>
  "FLT_MAX = 340282346638528859811704183484516925440"

definition sqrtf :: "real \<Rightarrow> real" where
  \<comment> \<open>On a negative argument the program gets a NaN, the model \<open>- sqrt (- a)\<close>.\<close>
  "sqrtf a = sqrt a"

definition float_to_int :: "real \<Rightarrow> int" where
  \<comment> \<open>The conversion \<^verbatim>\<open>int(e)\<close> of C++: the fractional part is discarded (truncation
      toward zero). The result is a mathematical integer; the program converts only
      values of a checkerboard point, which are far inside the range of \<^verbatim>\<open>int\<close>.\<close>
  "float_to_int a = (if a < 0 then \<lceil>a\<rceil> else \<lfloor>a\<rfloor>)"

definition powf :: "real \<Rightarrow> real \<Rightarrow> real" where
  \<comment> \<open>\<^verbatim>\<open>powf\<close> on a base that is never negative (the program passes \<^verbatim>\<open>std::max(0.0f, _)\<close>);
      \<^verbatim>\<open>powf(a, 0)\<close> is 1 for every base. For base 0 and a negative exponent the program
      gets an infinity, the model 0.\<close>
  "powf a e = (if e = 0 then 1 else a powr e)"

section \<open>Vectors (libs/Geometry.h)\<close>

text \<open>
  Modelled from the spec: libs/Geometry.h is not among the sources. \<open>Vec3f\<close> is a triple of
  floats (points, directions and colours); \<open>Vec4f\<close> is a quadruple, used only for the albedo
  of a material, whose components the program reads as \<^verbatim>\<open>m_Albedo[0]\<close> to \<^verbatim>\<open>m_Albedo[3]\<close>
  (diffuse, specular, reflection and refraction weight).
\<close>

datatype Vec3f = Vec3f (vec_x: real) (vec_y: real) (vec_z: real)

datatype Vec4f = Vec4f (vec4_0: real) (vec4_1: real) (vec4_2: real) (vec4_3: real)

instantiation Vec3f :: "{plus, minus, uminus}"
begin

definition plus_Vec3f :: "Vec3f \<Rightarrow> Vec3f \<Rightarrow> Vec3f" where
  \<comment> \<open>Modelled from the spec: libs/Geometry.h is not among the sources; addition of two
      3D vectors, component by component.\<close>
  "plus_Vec3f a b = Vec3f (vec_x a + vec_x b) (vec_y a + vec_y b) (vec_z a + vec_z b)"

definition minus_Vec3f :: "Vec3f \<Rightarrow> Vec3f \<Rightarrow> Vec3f" where
  \<comment> \<open>Modelled from the spec: libs/Geometry.h is not among the sources; subtraction of two
      3D vectors, component by component.\<close>
  "minus_Vec3f a b = Vec3f (vec_x a - vec_x b) (vec_y a - vec_y b) (vec_z a - vec_z b)"

definition uminus_Vec3f :: "Vec3f \<Rightarrow> Vec3f" where
  \<comment> \<open>Modelled from the spec: libs/Geometry.h is not among the sources; negation of a 3D
      vector.\<close>
  "uminus_Vec3f a = Vec3f (- vec_x a) (- vec_y a) (- vec_z a)"

instance ..

end

definition dot :: "Vec3f \<Rightarrow> Vec3f \<Rightarrow> real" where
  \<comment> \<open>Modelled from the spec: libs/Geometry.h is not among the sources; the dot product,
      written \<^verbatim>\<open>a * b\<close> on two vectors in the program.\<close>
  "dot a b = vec_x a * vec_x b + vec_y a * vec_y b + vec_z a * vec_z b"

definition smul :: "Vec3f \<Rightarrow> real \<Rightarrow> Vec3f" where
  \<comment> \<open>Modelled from the spec: libs/Geometry.h is not among the sources; scaling, written
      \<^verbatim>\<open>a * k\<close> on a vector and a scalar in the program.\<close>
  "smul a k = Vec3f (vec_x a * k) (vec_y a * k) (vec_z a * k)"

definition vnorm :: "Vec3f \<Rightarrow> real" where
  \<comment> \<open>Modelled from the spec: libs/Geometry.h is not among the sources; the Euclidean norm
      \<^verbatim>\<open>a.norm()\<close>.\<close>
  "vnorm a = sqrtf (dot a a)"

definition vnormalize :: "Vec3f \<Rightarrow> Vec3f" where
  \<comment> \<open>Modelled from the spec: libs/Geometry.h is not among the sources; \<^verbatim>\<open>a.normalize()\<close>
      scales a non-zero vector to unit norm. On the zero vector the program produces NaN;
      the model, dividing by zero in HOL, returns the zero vector.\<close>
  "vnormalize a = smul a (1 / vnorm a)"

section \<open>Materials, spheres and lights (libs/Sphere.h, libs/Light.h)\<close>

record Material =
  m_RefractiveIndex :: real
  m_Albedo :: Vec4f
  m_DiffuseColor :: Vec3f
  m_SpecularExponent :: real

definition Material_default :: Material where
  \<comment> \<open>The constructor \<^verbatim>\<open>Material()\<close>: value-initialised members, albedo (1, 0, 0, 0).\<close>
  "Material_default =
     \<lparr>m_RefractiveIndex = 0, m_Albedo = Vec4f 1 0 0 0, m_DiffuseColor = Vec3f 0 0 0,
      m_SpecularExponent = 0\<rparr>"

record Sphere =
  m_Center :: Vec3f
  m_Radius :: real
  m_Material :: Material

record Light =
  m_Position :: Vec3f
  m_Intensity :: real

definition RayIntersect :: "Sphere \<Rightarrow> Vec3f \<Rightarrow> Vec3f \<Rightarrow> real option" where
  \<comment> \<open>\<^verbatim>\<open>Sphere::RayIntersect\<close>: \<open>None\<close> is the result \<^verbatim>\<open>false\<close> (the out-parameter
      \<^verbatim>\<open>t\<close> is not written), \<open>Some t\<close> is \<^verbatim>\<open>true\<close> with \<^verbatim>\<open>t\<close> written.\<close>
  "RayIntersect s origin direction =
     (let xa = origin - m_Center s;
          b = dot xa direction;
          delta = (b * b) - dot xa xa + (m_Radius s * m_Radius s)
      in if delta < 0 then None
         else
           let s1 = - b - sqrtf delta;
               s2 = - b + sqrtf delta
           in if s1 > 0 then Some s1
              else if s2 > 0 then Some s2
              else None)"

section \<open>Scene intersection (Main.cpp)\<close>

record Hit =
  point :: Vec3f
  normal :: Vec3f
  material :: Material

definition Hit_default :: Hit where
  \<comment> \<open>The constructor \<^verbatim>\<open>Hit()\<close>.\<close>
  "Hit_default = \<lparr>point = Vec3f 0 0 0, normal = Vec3f 0 0 0, material = Material_default\<rparr>"

definition sphere_step :: "Vec3f \<Rightarrow> Vec3f \<Rightarrow> real \<times> Hit \<Rightarrow> Sphere \<Rightarrow> real \<times> Hit" where
  \<comment> \<open>The body of the loop over the spheres; the state is \<^verbatim>\<open>spheresDistance\<close> and
      \<^verbatim>\<open>hitInfo\<close>.\<close>
  "sphere_step origin direction st s =
     (let spheresDistance = fst st; hitInfo = snd st
      in case RayIntersect s origin direction of
           None \<Rightarrow> (spheresDistance, hitInfo)
         | Some t \<Rightarrow>
             if t < spheresDistance then
               (let p = origin + smul direction t
                in (t, hitInfo\<lparr>point := p,
                               normal := vnormalize (p - m_Center s),
                               material := m_Material s\<rparr>))
             else (spheresDistance, hitInfo))"

definition sphere_loop :: "Vec3f \<Rightarrow> Vec3f \<Rightarrow> Sphere list \<Rightarrow> Hit \<Rightarrow> real \<times> Hit" where
  \<comment> \<open>\<^verbatim>\<open>for (size_t i = 0; i < spheres.size(); i++)\<close>, from \<^verbatim>\<open>spheresDistance = max()\<close>.\<close>
  "sphere_loop origin direction spheres hitInfo =
     foldl (sphere_step origin direction) (FLT_MAX, hitInfo) spheres"

definition board_distance :: "Vec3f \<Rightarrow> Vec3f \<Rightarrow> real" where
  \<comment> \<open>\<^verbatim>\<open>float d = - (origin.y + 4.0f) / direction.y\<close>\<close>
  "board_distance origin direction = - (vec_y origin + 4) / vec_y direction"

definition board_accepted :: "Vec3f \<Rightarrow> Vec3f \<Rightarrow> real \<Rightarrow> bool" where
  \<comment> \<open>The two nested conditions under which the checkerboard hit is recorded.\<close>
  "board_accepted origin direction spheresDistance =
     (\<bar>vec_y direction\<bar> > 1 / 1000 \<and>
      (let d = board_distance origin direction;
           p = origin + smul direction d
       in d > 0 \<and> \<bar>vec_x p\<bar> < 10 \<and> vec_z p < - 10 \<and> vec_z p > - 30 \<and> d < spheresDistance))"

definition tile_color :: "Vec3f \<Rightarrow> Vec3f" where
  \<comment> \<open>\<^verbatim>\<open>(int(0.5f * p.x + 1000) + int(0.5f * p.z)) & 1 ? Vec3f(1, 1, 1) : Vec3f(1, 0.7, 0.3)\<close>\<close>
  "tile_color p =
     (if (float_to_int (0.5 * vec_x p + 1000) + float_to_int (0.5 * vec_z p)) AND 1 \<noteq> 0
      then Vec3f 1 1 1 else Vec3f 1 0.7 0.3)"

definition SceneIntersect :: "Vec3f \<Rightarrow> Vec3f \<Rightarrow> Sphere list \<Rightarrow> Hit \<Rightarrow> bool \<times> Hit" where
  \<comment> \<open>The result is the returned flag and the final content of the out-parameter
      \<^verbatim>\<open>hitInfo\<close>; the last argument is its content at the call.\<close>
  "SceneIntersect origin direction spheres hitInfo0 =
     (let st = sphere_loop origin direction spheres hitInfo0;
          spheresDistance = fst st;
          hitInfo = snd st
      in if board_accepted origin direction spheresDistance then
           (let d = board_distance origin direction;
                p = origin + smul direction d;
                c = tile_color p;
                checkerboardDistance = d
            in (min spheresDistance checkerboardDistance < 1000,
                hitInfo\<lparr>point := p,
                        normal := Vec3f 0 1 0,
                        material := (material hitInfo)\<lparr>m_DiffuseColor := smul c 0.3\<rparr>\<rparr>))
         else
           (let checkerboardDistance = FLT_MAX
            in (min spheresDistance checkerboardDistance < 1000, hitInfo)))"

definition sphere_hit_info :: "Vec3f \<Rightarrow> Vec3f \<Rightarrow> Sphere \<Rightarrow> real \<Rightarrow> Hit \<Rightarrow> Hit" where
  \<comment> \<open>The three assignments of the loop body, for the sphere \<open>s\<close> met at distance \<open>t\<close>.\<close>
  "sphere_hit_info origin direction s t hitInfo =
     hitInfo\<lparr>point := origin + smul direction t,
             normal := vnormalize (origin + smul direction t - m_Center s),
             material := m_Material s\<rparr>"

section \<open>Reflection and refraction (Main.cpp)\<close>

definition Reflect :: "Vec3f \<Rightarrow> Vec3f \<Rightarrow> Vec3f" where
  \<comment> \<open>The parameter \<^verbatim>\<open>normal\<close> is written \<open>nrm\<close>: \<open>normal\<close> is a field of \<open>Hit\<close>.\<close>
  "Reflect direction nrm = direction - smul (smul nrm 2) (dot direction nrm)"

definition Refract :: "Vec3f \<Rightarrow> Vec3f \<Rightarrow> real \<Rightarrow> Vec3f" where
  \<comment> \<open>Where the program divides by zero or takes the root of a negative number (and goes
      on with an infinity or a NaN), the model goes on with HOL's values of \<open>1 / 0\<close> and
      \<open>sqrt\<close>.\<close>
  "Refract direction nrm refractiveIndex =
     (let n = nrm;
          r = 1 / refractiveIndex;
          c = - (dot n direction);
          flip = (c < 0);
          r = (if flip then refractiveIndex else r);
          c = (if flip then - c else c);
          n = (if flip then - n else n);
          k = (r * r) * (1 - (c * c));
          s = sqrtf (1 - k)
      in smul direction r + smul n ((r * c) - s))"

section \<open>Recursive ray casting (Main.cpp)\<close>

definition bias_origin :: "Vec3f \<Rightarrow> Hit \<Rightarrow> Vec3f" where
  \<comment> \<open>\<^verbatim>\<open>dir * hitInfo.normal < 0 ? hitInfo.point - hitInfo.normal * 1e-3
                                 : hitInfo.point + hitInfo.normal * 1e-3\<close>,
      written out three times in \<^verbatim>\<open>CastRay\<close> (reflection, refraction, shadow).\<close>
  "bias_origin dir hitInfo =
     (if dot dir (normal hitInfo) < 0
      then point hitInfo - smul (normal hitInfo) (1 / 1000)
      else point hitInfo + smul (normal hitInfo) (1 / 1000))"

definition shadowed :: "Sphere list \<Rightarrow> Hit \<Rightarrow> Light \<Rightarrow> bool" where
  \<comment> \<open>The condition of the \<^verbatim>\<open>continue\<close> in the loop over the lights.\<close>
  "shadowed spheres hitInfo light =
     (let shaddowInfo = Hit_default;
          lightDirection = vnormalize (m_Position light - point hitInfo);
          lightDistance = vnorm (m_Position light - point hitInfo);
          shadowOrigin = bias_origin lightDirection hitInfo;
          r = SceneIntersect shadowOrigin lightDirection spheres shaddowInfo
      in fst r \<and> vnorm (point (snd r) - shadowOrigin) < lightDistance)"

definition light_step :: "Vec3f \<Rightarrow> Sphere list \<Rightarrow> Hit \<Rightarrow> real \<times> real \<Rightarrow> Light \<Rightarrow> real \<times> real" where
  \<comment> \<open>The body of the loop over the lights; the state is \<^verbatim>\<open>diffuseLightIntensity\<close> and
      \<^verbatim>\<open>specularLightIntensity\<close>.\<close>
  "light_step direction spheres hitInfo acc light =
     (let diffuseLightIntensity = fst acc;
          specularLightIntensity = snd acc;
          lightDirection = vnormalize (m_Position light - point hitInfo)
      in if shadowed spheres hitInfo light then (diffuseLightIntensity, specularLightIntensity)
         else
           (let reflectedLight = Reflect lightDirection (normal hitInfo);
                diffuseFactor = dot lightDirection (normal hitInfo)
                                / (vnorm lightDirection * vnorm (normal hitInfo))
            in (diffuseLightIntensity + m_Intensity light * max 0 diffuseFactor,
                specularLightIntensity
                + m_Intensity light
                  * powf (max 0 (dot reflectedLight direction))
                         (m_SpecularExponent (material hitInfo)))))"

definition light_loop :: "Vec3f \<Rightarrow> Sphere list \<Rightarrow> Hit \<Rightarrow> Light list \<Rightarrow> real \<times> real" where
  \<comment> \<open>\<^verbatim>\<open>for (size_t i = 0; i < lights.size(); i++)\<close>, from both intensities at 0.\<close>
  "light_loop direction spheres hitInfo lights =
     foldl (light_step direction spheres hitInfo) (0, 0) lights"

function CastRay :: "Vec3f \<Rightarrow> Vec3f \<Rightarrow> Sphere list \<Rightarrow> Light list \<Rightarrow> nat \<Rightarrow> Vec3f" where
  "CastRay origin direction spheres lights depth =
     (let r = SceneIntersect origin direction spheres Hit_default;
          hitInfo = snd r
      in if depth < 5 \<and> fst r then
           (let reflectDirection = vnormalize (Reflect direction (normal hitInfo));
                reflectOrigin = bias_origin reflectDirection hitInfo;
                reflectColor = CastRay reflectOrigin reflectDirection spheres lights (depth + 1);
                refractDirection =
                  vnormalize (Refract direction (normal hitInfo)
                                (m_RefractiveIndex (material hitInfo)));
                refractOrigin = bias_origin refractDirection hitInfo;
                refractColor = CastRay refractOrigin refractDirection spheres lights (depth + 1);
                acc = light_loop direction spheres hitInfo lights;
                diffuseLightIntensity = fst acc;
                specularLightIntensity = snd acc;
                diffuseComp =
                  smul (smul (m_DiffuseColor (material hitInfo))
                             (vec4_0 (m_Albedo (material hitInfo)))) diffuseLightIntensity;
                specularComp =
                  smul (smul (Vec3f 1 1 1) (vec4_1 (m_Albedo (material hitInfo))))
                       specularLightIntensity;
                reflectComp = smul reflectColor (vec4_2 (m_Albedo (material hitInfo)));
                refractComp = smul refractColor (vec4_3 (m_Albedo (material hitInfo)))
            in diffuseComp + specularComp + reflectComp + refractComp)
         else Vec3f 0.2 0.5 0.8)"
  by pat_completeness auto
termination
  by (relation "measure (\<lambda>(origin, direction, spheres, lights, depth). 5 - depth)") auto

declare CastRay.simps [simp del]

text \<open>
  \<^verbatim>\<open>depth\<close> is a \<^verbatim>\<open>size_t\<close>; it is only incremented below 5, so it never wraps and is
  modelled by \<^typ>\<open>nat\<close>. The program calls \<^verbatim>\<open>SceneIntersect\<close> only when
  \<^verbatim>\<open>depth < 5\<close>; the call has no effect but on the local \<^verbatim>\<open>hitInfo\<close>.
\<close>

section \<open>Materials of the scene built by main (Main.cpp)\<close>

definition ivory :: Material where
  "ivory =
     \<lparr>m_RefractiveIndex = 1, m_Albedo = Vec4f 0.6 0.3 0.1 0, m_DiffuseColor = Vec3f 0.4 0.4 0.3,
      m_SpecularExponent = 50\<rparr>"

definition mirror :: Material where
  "mirror =
     \<lparr>m_RefractiveIndex = 1, m_Albedo = Vec4f 0 10 0.8 0, m_DiffuseColor = Vec3f 1 1 1,
      m_SpecularExponent = 1425\<rparr>"

section \<open>Distances in the words of the specification\<close>

definition sphere_hits :: "Vec3f \<Rightarrow> Vec3f \<Rightarrow> Sphere list \<Rightarrow> real list" where
  \<comment> \<open>The distances at which the ray meets the spheres of the scene, one for each sphere
      that \<^const>\<open>RayIntersect\<close> reports as hit.\<close>
  "sphere_hits origin direction spheres =
     List.map_filter (\<lambda>s. RayIntersect s origin direction) spheres"

definition nearest_sphere_distance :: "Vec3f \<Rightarrow> Vec3f \<Rightarrow> Sphere list \<Rightarrow> real" where
  \<comment> \<open>The nearest sphere-hit distance, float-max when no sphere is hit.\<close>
  "nearest_sphere_distance origin direction spheres =
     (case sphere_hits origin direction spheres of
        [] \<Rightarrow> FLT_MAX
      | t # ts \<Rightarrow> fold min ts t)"

definition plane_distance :: "Vec3f \<Rightarrow> Vec3f \<Rightarrow> Sphere list \<Rightarrow> real" where
  \<comment> \<open>The distance of the checkerboard hit when it is accepted (in front of the origin,
      inside the board and nearer than the nearest sphere hit), float-max otherwise.\<close>
  "plane_distance origin direction spheres =
     (if board_accepted origin direction (nearest_sphere_distance origin direction spheres)
      then board_distance origin direction else FLT_MAX)"

definition scene_candidates :: "Vec3f \<Rightarrow> Vec3f \<Rightarrow> Sphere list \<Rightarrow> real list" where
  \<comment> \<open>The candidate intersections of a ray: the sphere hits, and the checkerboard hit when
      \<^verbatim>\<open>SceneIntersect\<close> accepts it.\<close>
  "scene_candidates origin direction spheres =
     sphere_hits origin direction spheres
     @ (if board_accepted origin direction
             (fst (sphere_loop origin direction spheres Hit_default))
        then [board_distance origin direction] else [])"


section \<open>Evaluation on concrete rays\<close>

lemmas vec_defs = plus_Vec3f_def minus_Vec3f_def uminus_Vec3f_def dot_def smul_def

lemmas scene_defs = SceneIntersect_def sphere_loop_def sphere_step_def RayIntersect_def
  board_accepted_def board_distance_def tile_color_def float_to_int_def FLT_MAX_def sqrtf_def
  Hit_default_def Material_default_def Let_def

lemmas hits_defs = scene_candidates_def sphere_hits_def nearest_sphere_distance_def

lemma vnorm_axis_y: "vnorm (Vec3f 0 a 0) = \<bar>a\<bar>"
  by (simp add: vnorm_def dot_def sqrtf_def)

lemma vnorm_axis_z: "vnorm (Vec3f 0 0 a) = \<bar>a\<bar>"
  by (simp add: vnorm_def dot_def sqrtf_def)

lemma FLT_MAX_ge: "1000 \<le> FLT_MAX"
  by (simp add: FLT_MAX_def)

section \<open>Ray-sphere intersection\<close>

lemma RayIntersect_pos: "RayIntersect s origin direction = Some t \<Longrightarrow> 0 < t"
  by (auto simp: RayIntersect_def Let_def split: if_splits)



section \<open>The loop over the spheres\<close>

lemma sphere_step_None:
  "RayIntersect s origin direction = None \<Longrightarrow> sphere_step origin direction (sd, h) s = (sd, h)"
  by (simp add: sphere_step_def)

lemma sphere_step_Some:
  "RayIntersect s origin direction = Some t \<Longrightarrow>
   sphere_step origin direction (sd, h) s =
     (if t < sd then (t, sphere_hit_info origin direction s t h) else (sd, h))"
  by (simp add: sphere_step_def sphere_hit_info_def Let_def)

lemma sphere_hit_info_twice:
  "sphere_hit_info origin direction s t (sphere_hit_info origin direction s' t' h) =
   sphere_hit_info origin direction s t h"
  by (simp add: sphere_hit_info_def)

lemma fold_min_le_init: "fold min ts (a::real) \<le> a"
proof (induction ts arbitrary: a)
  case Nil
  then show ?case by simp
next
  case (Cons t ts)
  have "fold min ts (min t a) \<le> min t a" by (rule Cons)
  then show ?case by simp
qed

lemma fold_min_le_elem: "c \<in> set ts \<Longrightarrow> fold min ts (a::real) \<le> c"
proof (induction ts arbitrary: a)
  case Nil
  then show ?case by simp
next
  case (Cons t ts)
  show ?case
  proof (cases "c = t")
    case True
    have "fold min ts (min t a) \<le> min t a" by (rule fold_min_le_init)
    then show ?thesis using True by simp
  next
    case False
    with Cons show ?thesis by simp
  qed
qed

lemma fold_min_in: "fold min ts (a::real) = a \<or> fold min ts a \<in> set ts"
proof (induction ts arbitrary: a)
  case Nil
  then show ?case by simp
next
  case (Cons t ts)
  from Cons [of "min t a"] show ?case by (auto simp: min_def split: if_splits)
qed

lemma fold_min_min: "fold min ts (min (a::real) b) = min (fold min ts a) b"
  by (induction ts arbitrary: a) (simp_all add: min.assoc [symmetric])

lemma sphere_hits_Cons:
  "sphere_hits origin direction (s # ss) =
     (case RayIntersect s origin direction of
        None \<Rightarrow> sphere_hits origin direction ss
      | Some t \<Rightarrow> t # sphere_hits origin direction ss)"
  by (simp add: sphere_hits_def split: option.split)

lemma sphere_hits_Nil: "sphere_hits origin direction [] = []"
  by (simp add: sphere_hits_def)

lemma set_sphere_hits:
  "set (sphere_hits origin direction ss) =
     {t. \<exists>s \<in> set ss. RayIntersect s origin direction = Some t}"
  by (induction ss) (auto simp: sphere_hits_Cons sphere_hits_Nil split: option.splits)

text \<open>
  The loop, started from any distance \<open>sd\<close>: it ends with the least of \<open>sd\<close> and the
  sphere hits; when that is below \<open>sd\<close>, the hit record is that of the first sphere of
  the list met at this distance, and otherwise it is untouched.
\<close>

lemma sphere_fold:
  fixes origin direction :: Vec3f
  defines "m \<equiv> \<lambda>sd ss. fold min (sphere_hits origin direction ss) sd"
  shows "foldl (sphere_step origin direction) (sd, h) ss =
     (if m sd ss < sd
      then (m sd ss, sphere_hit_info origin direction
              (the (find (\<lambda>s. RayIntersect s origin direction = Some (m sd ss)) ss)) (m sd ss) h)
      else (sd, h)) \<and>
     (m sd ss < sd \<longrightarrow> find (\<lambda>s. RayIntersect s origin direction = Some (m sd ss)) ss \<noteq> None)"
proof (induction ss arbitrary: sd h)
  case Nil
  then show ?case by (simp add: m_def sphere_hits_Nil)
next
  case (Cons s ss)
  show ?case
  proof (cases "RayIntersect s origin direction")
    case None
    then show ?thesis
      using Cons [of sd h] by (simp add: m_def sphere_hits_Cons sphere_step_None)
  next
    case (Some t)
    show ?thesis
    proof (cases "t < sd")
      case True
      then have mm: "m sd (s # ss) = m t ss"
        by (simp add: m_def sphere_hits_Cons Some min_def)
      have le: "m t ss \<le> t" unfolding m_def by (rule fold_min_le_init)
      show ?thesis
        using Cons [of t "sphere_hit_info origin direction s t h"] True le
        by (auto simp: mm Some sphere_step_Some sphere_hit_info_twice)
    next
      case False
      then have mm: "m sd (s # ss) = m sd ss"
        by (simp add: m_def sphere_hits_Cons Some min_def)
      have le: "m sd ss \<le> sd" unfolding m_def by (rule fold_min_le_init)
      show ?thesis
        using Cons [of sd h] False le
        by (auto simp: mm Some sphere_step_Some)
    qed
  qed
qed

lemma sphere_loop_fst:
  "fst (sphere_loop origin direction ss h) = fold min (sphere_hits origin direction ss) FLT_MAX"
  using sphere_fold [of origin direction FLT_MAX h ss]
    fold_min_le_init [of "sphere_hits origin direction ss" FLT_MAX]
  by (auto simp: sphere_loop_def split: if_splits)

lemma sphere_loop_fst_nearest:
  "fst (sphere_loop origin direction ss h) =
     min FLT_MAX (nearest_sphere_distance origin direction ss)"
  by (simp add: sphere_loop_fst nearest_sphere_distance_def fold_min_min min.commute
           split: list.split)

lemma sphere_loop_le_FLT_MAX: "fst (sphere_loop origin direction ss h) \<le> FLT_MAX"
  by (simp add: sphere_loop_fst_nearest)

lemma sphere_loop_le_hit:
  "c \<in> set (sphere_hits origin direction ss) \<Longrightarrow> fst (sphere_loop origin direction ss h) \<le> c"
  by (simp add: sphere_loop_fst fold_min_le_elem)

lemma sphere_loop_unchanged:
  "fst (sphere_loop origin direction ss h) = FLT_MAX \<Longrightarrow>
   snd (sphere_loop origin direction ss h) = h"
  using sphere_fold [of origin direction FLT_MAX h ss]
  by (auto simp: sphere_loop_def split: if_splits)

lemma sphere_loop_recorded:
  assumes "fst (sphere_loop origin direction ss h) < FLT_MAX"
  shows "\<exists>s. find (\<lambda>s. RayIntersect s origin direction
                       = Some (fst (sphere_loop origin direction ss h))) ss = Some s \<and>
             snd (sphere_loop origin direction ss h) =
               sphere_hit_info origin direction s (fst (sphere_loop origin direction ss h)) h"
  using sphere_fold [of origin direction FLT_MAX h ss] assms
  by (auto simp: sphere_loop_def split: if_splits)

lemma sphere_loop_in_hits:
  assumes "fst (sphere_loop origin direction ss h) < FLT_MAX"
  shows "fst (sphere_loop origin direction ss h) \<in> set (sphere_hits origin direction ss)"
  using fold_min_in [of "sphere_hits origin direction ss" FLT_MAX] assms
  by (auto simp: sphere_loop_fst)

section \<open>The two outcomes of the checkerboard test\<close>

lemma SceneIntersect_accepted:
  "board_accepted origin direction (fst (sphere_loop origin direction ss h)) \<Longrightarrow>
   SceneIntersect origin direction ss h =
     (board_distance origin direction < 1000,
      (snd (sphere_loop origin direction ss h))
        \<lparr>point := origin + smul direction (board_distance origin direction),
         normal := Vec3f 0 1 0,
         material := (material (snd (sphere_loop origin direction ss h)))
            \<lparr>m_DiffuseColor :=
               smul (tile_color (origin + smul direction (board_distance origin direction))) 0.3\<rparr>\<rparr>)"
  by (auto simp: SceneIntersect_def Let_def board_accepted_def min_def)

lemma SceneIntersect_rejected:
  "\<not> board_accepted origin direction (fst (sphere_loop origin direction ss h)) \<Longrightarrow>
   SceneIntersect origin direction ss h =
     (fst (sphere_loop origin direction ss h) < 1000, snd (sphere_loop origin direction ss h))"
  using sphere_loop_le_FLT_MAX [of origin direction ss h]
  by (simp add: SceneIntersect_def Let_def min_def)

lemma scene_candidates_eq:
  "scene_candidates origin direction ss =
     sphere_hits origin direction ss
     @ (if board_accepted origin direction (fst (sphere_loop origin direction ss h))
        then [board_distance origin direction] else [])"
  by (simp add: scene_candidates_def sphere_loop_fst)

section \<open>Nearest hit and the cutoff at 1000\<close>

text \<open>
  C3. The hit that \<^const>\<open>SceneIntersect\<close> reports is the nearest candidate, never a
  farther one. The candidates are the sphere hits and the checkerboard hit when it is
  accepted. Whenever some candidate lies below float-max, there is a candidate \<open>m\<close> that
  is positive and not greater than any other candidate, the reported point is
  \<open>origin + direction * m\<close>, and the returned flag is true exactly when \<open>m < 1000\<close>.
  When the checkerboard hit is accepted, \<open>m\<close> is its distance and the normal is
  (0, 1, 0); otherwise the hit record is that of the first sphere of the list met at \<open>m\<close>.
\<close>

theorem SceneIntersect_nearest:
  assumes "c0 \<in> set (scene_candidates origin direction spheres)" and "c0 < FLT_MAX"
  shows "\<exists>m \<in> set (scene_candidates origin direction spheres).
           (\<forall>c \<in> set (scene_candidates origin direction spheres). m \<le> c) \<and> 0 < m \<and>
           point (snd (SceneIntersect origin direction spheres hitInfo))
             = origin + smul direction m \<and>
           (fst (SceneIntersect origin direction spheres hitInfo) \<longleftrightarrow> m < 1000) \<and>
           (if board_accepted origin direction (fst (sphere_loop origin direction spheres hitInfo))
            then m = board_distance origin direction \<and>
                 normal (snd (SceneIntersect origin direction spheres hitInfo)) = Vec3f 0 1 0
            else \<exists>s. find (\<lambda>s. RayIntersect s origin direction = Some m) spheres = Some s \<and>
                     snd (SceneIntersect origin direction spheres hitInfo) =
                       hitInfo\<lparr>point := origin + smul direction m,
                               normal := vnormalize (origin + smul direction m - m_Center s),
                               material := m_Material s\<rparr>)"
proof -
  let ?sd = "fst (sphere_loop origin direction spheres hitInfo)"
  let ?d = "board_distance origin direction"
  note cands = scene_candidates_eq [of origin direction spheres hitInfo]
  show ?thesis
  proof (cases "board_accepted origin direction ?sd")
    case True
    then have d: "0 < ?d" "?d < ?sd" by (simp_all add: board_accepted_def Let_def)
    have "?d \<le> c" if "c \<in> set (scene_candidates origin direction spheres)" for c
      using that d(2) sphere_loop_le_hit [of c origin direction spheres hitInfo]
      by (auto simp: cands True)
    moreover have "?d \<in> set (scene_candidates origin direction spheres)"
      by (simp add: cands True)
    ultimately show ?thesis
      using d(1) True by (auto simp: SceneIntersect_accepted [OF True])
  next
    case False
    with assms(1) have c0: "c0 \<in> set (sphere_hits origin direction spheres)"
      by (simp add: cands)
    from sphere_loop_le_hit [OF c0, of hitInfo] assms(2) have lt: "?sd < FLT_MAX" by simp
    from sphere_loop_in_hits [OF lt]
    have mem: "?sd \<in> set (scene_candidates origin direction spheres)"
      by (simp add: cands False)
    then have pos: "0 < ?sd"
      by (auto simp: cands False set_sphere_hits dest: RayIntersect_pos)
    have least: "\<forall>c \<in> set (scene_candidates origin direction spheres). ?sd \<le> c"
      using sphere_loop_le_hit [of _ origin direction spheres hitInfo]
      by (simp add: cands False)
    from sphere_loop_recorded [OF lt] obtain s where
      s: "find (\<lambda>s. RayIntersect s origin direction = Some ?sd) spheres = Some s"
      "snd (sphere_loop origin direction spheres hitInfo) =
         sphere_hit_info origin direction s ?sd hitInfo"
      by blast
    have "(\<forall>c \<in> set (scene_candidates origin direction spheres). ?sd \<le> c) \<and> 0 < ?sd \<and>
           point (snd (SceneIntersect origin direction spheres hitInfo))
             = origin + smul direction ?sd \<and>
           (fst (SceneIntersect origin direction spheres hitInfo) \<longleftrightarrow> ?sd < 1000) \<and>
           (\<exists>s. find (\<lambda>s. RayIntersect s origin direction = Some ?sd) spheres = Some s \<and>
                     snd (SceneIntersect origin direction spheres hitInfo) =
                       hitInfo\<lparr>point := origin + smul direction ?sd,
                               normal := vnormalize (origin + smul direction ?sd - m_Center s),
                               material := m_Material s\<rparr>)"
      using least pos s
      by (simp add: SceneIntersect_rejected [OF False] sphere_hit_info_def)
    with mem False show ?thesis by auto
  qed
qed

text \<open>
  Two spheres on the axis of the ray, the farther one first in the list: the candidates
  are 9 and 4, and the hit reported is that of the second sphere, at distance 4.
\<close>

theorem SceneIntersect_nearest_witness:
  "9 \<in> set (scene_candidates (Vec3f 0 0 0) (Vec3f 0 0 (- 1))
      [\<lparr>m_Center = Vec3f 0 0 (- 10), m_Radius = 1, m_Material = ivory\<rparr>,
       \<lparr>m_Center = Vec3f 0 0 (- 5), m_Radius = 1, m_Material = mirror\<rparr>]) \<and>
   9 < FLT_MAX \<and>
   SceneIntersect (Vec3f 0 0 0) (Vec3f 0 0 (- 1))
      [\<lparr>m_Center = Vec3f 0 0 (- 10), m_Radius = 1, m_Material = ivory\<rparr>,
       \<lparr>m_Center = Vec3f 0 0 (- 5), m_Radius = 1, m_Material = mirror\<rparr>] Hit_default =
     (True, \<lparr>point = Vec3f 0 0 (- 4), normal = Vec3f 0 0 1, material = mirror\<rparr>)"
proof -
  let ?ss = "[\<lparr>m_Center = Vec3f 0 0 (- 10), m_Radius = 1, m_Material = ivory\<rparr>,
       \<lparr>m_Center = Vec3f 0 0 (- 5), m_Radius = 1, m_Material = mirror\<rparr>]"
  have r: "RayIntersect \<lparr>m_Center = Vec3f 0 0 (- 10), m_Radius = 1, m_Material = ivory\<rparr>
             (Vec3f 0 0 0) (Vec3f 0 0 (- 1)) = Some 9"
     "RayIntersect \<lparr>m_Center = Vec3f 0 0 (- 5), m_Radius = 1, m_Material = mirror\<rparr>
             (Vec3f 0 0 0) (Vec3f 0 0 (- 1)) = Some 4"
    by (simp_all add: RayIntersect_def vec_defs sqrtf_def Let_def)
  have b: "\<not> board_accepted (Vec3f 0 0 0) (Vec3f 0 0 (- 1)) sd" for sd
    by (simp add: board_accepted_def)
  have c: "scene_candidates (Vec3f 0 0 0) (Vec3f 0 0 (- 1)) ?ss = [9, 4]"
    by (simp add: hits_defs r b)
  have f: "(9::real) < FLT_MAX" by (simp add: FLT_MAX_def)
  have m: "9 \<in> set (scene_candidates (Vec3f 0 0 0) (Vec3f 0 0 (- 1)) ?ss)" by (simp add: c)
  from SceneIntersect_nearest [OF m f, of Hit_default] m f show ?thesis
    by (auto simp: c b r vec_defs vnormalize_def vnorm_axis_z Hit_default_def prod_eq_iff)
qed

text \<open>
  C5. \<^const>\<open>SceneIntersect\<close> returns true if and only if the minimum of the nearest
  sphere-hit distance and the accepted checkerboard distance, each float-max when
  absent, is strictly below 1000.
\<close>

theorem SceneIntersect_hit_iff:
  "fst (SceneIntersect origin direction spheres hitInfo) \<longleftrightarrow>
   min (nearest_sphere_distance origin direction spheres)
       (plane_distance origin direction spheres) < 1000"
proof -
  let ?sd = "fst (sphere_loop origin direction spheres hitInfo)"
  let ?n = "nearest_sphere_distance origin direction spheres"
  let ?d = "board_distance origin direction"
  have sd: "?sd = min FLT_MAX ?n" by (rule sphere_loop_fst_nearest)
  show ?thesis
  proof (cases "board_accepted origin direction ?sd")
    case True
    then have "?d < ?sd" by (simp add: board_accepted_def Let_def)
    with sd have "?d < ?n" by simp
    with True have "board_accepted origin direction ?n"
      by (simp add: board_accepted_def Let_def)
    with \<open>?d < ?n\<close> show ?thesis
      by (simp add: SceneIntersect_accepted [OF True] plane_distance_def min_def)
  next
    case False
    show ?thesis
    proof (cases "board_accepted origin direction ?n")
      case True
      with False have "?d < ?n" "\<not> ?d < ?sd" by (auto simp: board_accepted_def Let_def)
      with sd have "FLT_MAX \<le> ?d" "?sd = FLT_MAX" by (auto simp: min_def split: if_splits)
      with True \<open>?d < ?n\<close> FLT_MAX_ge show ?thesis
        by (simp add: SceneIntersect_rejected [OF False] plane_distance_def min_def)
    next
      case False2: False
      with FLT_MAX_ge show ?thesis
        by (auto simp: SceneIntersect_rejected [OF False] plane_distance_def sd min_def)
    qed
  qed
qed

text \<open>
  A sphere met at distance 2 is a hit; the same sphere met at distance 2000 is not.
\<close>

theorem SceneIntersect_hit_iff_witness:
  "fst (SceneIntersect (Vec3f 0 0 0) (Vec3f 0 0 (- 1))
          [\<lparr>m_Center = Vec3f 0 0 (- 3), m_Radius = 1, m_Material = ivory\<rparr>] Hit_default) \<and>
   nearest_sphere_distance (Vec3f 0 0 0) (Vec3f 0 0 (- 1))
          [\<lparr>m_Center = Vec3f 0 0 (- 3), m_Radius = 1, m_Material = ivory\<rparr>] = 2 \<and>
   \<not> fst (SceneIntersect (Vec3f 0 0 0) (Vec3f 0 0 (- 1))
          [\<lparr>m_Center = Vec3f 0 0 (- 2001), m_Radius = 1, m_Material = ivory\<rparr>] Hit_default)"
proof -
  have n1: "nearest_sphere_distance (Vec3f 0 0 0) (Vec3f 0 0 (- 1))
          [\<lparr>m_Center = Vec3f 0 0 (- 3), m_Radius = 1, m_Material = ivory\<rparr>] = 2"
    by (simp add: hits_defs RayIntersect_def vec_defs sqrtf_def Let_def)
  have n2: "nearest_sphere_distance (Vec3f 0 0 0) (Vec3f 0 0 (- 1))
          [\<lparr>m_Center = Vec3f 0 0 (- 2001), m_Radius = 1, m_Material = ivory\<rparr>] = 2000"
    by (simp add: hits_defs RayIntersect_def vec_defs sqrtf_def Let_def)
  have p: "plane_distance (Vec3f 0 0 0) (Vec3f 0 0 (- 1)) ss = FLT_MAX" for ss
    by (simp add: plane_distance_def board_accepted_def)
  show ?thesis
    using SceneIntersect_hit_iff [of "Vec3f 0 0 0" "Vec3f 0 0 (- 1)"
            "[\<lparr>m_Center = Vec3f 0 0 (- 3), m_Radius = 1, m_Material = ivory\<rparr>]" Hit_default]
          SceneIntersect_hit_iff [of "Vec3f 0 0 0" "Vec3f 0 0 (- 1)"
            "[\<lparr>m_Center = Vec3f 0 0 (- 2001), m_Radius = 1, m_Material = ivory\<rparr>]" Hit_default]
    by (simp add: n1 n2 p FLT_MAX_def)
qed

text \<open>
  C8. For a ray with \<open>\<bar>direction.y\<bar> \<le> 1e-3\<close> the checkerboard test is skipped: the result
  of \<^const>\<open>SceneIntersect\<close> is the result of the loop over the spheres alone, the
  distance to the board being never formed; with an empty list of spheres the ray is
  reported as no hit (and the hit record is left as it was).
\<close>

theorem SceneIntersect_parallel:
  assumes "\<bar>vec_y direction\<bar> \<le> 1 / 1000"
  shows "SceneIntersect origin direction spheres hitInfo =
           (fst (sphere_loop origin direction spheres hitInfo) < 1000,
            snd (sphere_loop origin direction spheres hitInfo)) \<and>
         SceneIntersect origin direction [] hitInfo = (False, hitInfo)"
proof -
  have no: "\<not> board_accepted origin direction sd" for sd
    using assms by (simp add: board_accepted_def)
  have "SceneIntersect origin direction [] hitInfo = (False, hitInfo)"
    using FLT_MAX_ge by (simp add: SceneIntersect_rejected [OF no] sphere_loop_def)
  then show ?thesis by (simp add: SceneIntersect_rejected [OF no])
qed

text \<open>A horizontal ray in the empty scene.\<close>

theorem SceneIntersect_parallel_witness:
  "\<bar>vec_y (Vec3f 0 0 (- 1))\<bar> \<le> 1 / 1000 \<and>
   SceneIntersect (Vec3f 0 0 0) (Vec3f 0 0 (- 1)) [] Hit_default = (False, Hit_default)"
proof -
  have h: "\<bar>vec_y (Vec3f 0 0 (- 1))\<bar> \<le> 1 / 1000" by simp
  from SceneIntersect_parallel [OF h, of "Vec3f 0 0 0" "[]" Hit_default] h show ?thesis
    by blast
qed

text \<open>
  C10. The out-parameter is not left unchanged on a no-hit result. When the nearest
  sphere intersection parameter \<open>t\<close> satisfies \<open>1000 \<le> t < float-max\<close> and the checkerboard
  hit is not accepted, \<^const>\<open>SceneIntersect\<close> returns false, and the point, the normal
  and the material of the hit record are those of the sphere met at \<open>t\<close> (the first such
  sphere of the list).
\<close>

theorem SceneIntersect_no_hit_overwrites:
  assumes "nearest_sphere_distance origin direction spheres = t"
    and "1000 \<le> t" and "t < FLT_MAX"
    and "\<not> board_accepted origin direction t"
  shows "\<exists>s. find (\<lambda>s. RayIntersect s origin direction = Some t) spheres = Some s \<and>
             SceneIntersect origin direction spheres hitInfo =
               (False, hitInfo\<lparr>point := origin + smul direction t,
                               normal := vnormalize (origin + smul direction t - m_Center s),
                               material := m_Material s\<rparr>)"
proof -
  have sd: "fst (sphere_loop origin direction spheres hitInfo) = t"
    using assms(1,3) by (simp add: sphere_loop_fst_nearest)
  with assms(3) sphere_loop_recorded [of origin direction spheres hitInfo]
  obtain s where s: "find (\<lambda>s. RayIntersect s origin direction = Some t) spheres = Some s"
    "snd (sphere_loop origin direction spheres hitInfo)
       = sphere_hit_info origin direction s t hitInfo"
    by auto
  from assms(4) sd
  have "\<not> board_accepted origin direction (fst (sphere_loop origin direction spheres hitInfo))"
    by simp
  from SceneIntersect_rejected [OF this] sd s assms(2) show ?thesis
    by (simp add: sphere_hit_info_def)
qed

text \<open>
  A sphere met at distance 2000 by a horizontal ray: no hit is returned, and the fresh
  hit record now holds the point, the normal and the material of that sphere.
\<close>

theorem SceneIntersect_no_hit_overwrites_witness:
  "nearest_sphere_distance (Vec3f 0 0 0) (Vec3f 0 0 (- 1))
      [\<lparr>m_Center = Vec3f 0 0 (- 2001), m_Radius = 1, m_Material = ivory\<rparr>] = 2000 \<and>
   (1000::real) \<le> 2000 \<and> 2000 < FLT_MAX \<and>
   \<not> board_accepted (Vec3f 0 0 0) (Vec3f 0 0 (- 1)) 2000 \<and>
   SceneIntersect (Vec3f 0 0 0) (Vec3f 0 0 (- 1))
      [\<lparr>m_Center = Vec3f 0 0 (- 2001), m_Radius = 1, m_Material = ivory\<rparr>] Hit_default =
     (False, \<lparr>point = Vec3f 0 0 (- 2000), normal = Vec3f 0 0 1, material = ivory\<rparr>)"
proof -
  let ?S = "\<lparr>m_Center = Vec3f 0 0 (- 2001), m_Radius = 1, m_Material = ivory\<rparr>"
  have r: "RayIntersect ?S (Vec3f 0 0 0) (Vec3f 0 0 (- 1)) = Some 2000"
    by (simp add: RayIntersect_def vec_defs sqrtf_def Let_def)
  have n: "nearest_sphere_distance (Vec3f 0 0 0) (Vec3f 0 0 (- 1)) [?S] = 2000"
    by (simp add: hits_defs r)
  have b: "\<not> board_accepted (Vec3f 0 0 0) (Vec3f 0 0 (- 1)) 2000"
    by (simp add: board_accepted_def)
  have f: "(2000::real) < FLT_MAX" by (simp add: FLT_MAX_def)
  from SceneIntersect_no_hit_overwrites [OF n _ f b, of Hit_default] n b f show ?thesis
    by (simp add: r vec_defs vnormalize_def vnorm_axis_z Hit_default_def)
qed

section \<open>The checkerboard\<close>

text \<open>
  What the material of an accepted checkerboard hit is: the material left in the hit
  record by the loop over the spheres, with its diffuse colour replaced. On a fresh hit
  record and with no sphere recorded, that is the default material, of albedo
  (1, 0, 0, 0); once a sphere has been recorded, it is the material of that sphere.
\<close>

lemma board_material_fresh:
  assumes "board_accepted origin direction (fst (sphere_loop origin direction ss Hit_default))"
    and "fst (sphere_loop origin direction ss Hit_default) = FLT_MAX"
  shows "material (snd (SceneIntersect origin direction ss Hit_default)) =
           Material_default\<lparr>m_DiffuseColor :=
             smul (tile_color (origin + smul direction (board_distance origin direction))) 0.3\<rparr>"
proof -
  have "material (snd (sphere_loop origin direction ss Hit_default)) = Material_default"
    by (subst sphere_loop_unchanged [OF assms(2)]) (simp add: Hit_default_def)
  then show ?thesis
    by (simp add: SceneIntersect_accepted [OF assms(1)])
qed

lemma board_material_stale:
  assumes "board_accepted origin direction (fst (sphere_loop origin direction ss h))"
    and "fst (sphere_loop origin direction ss h) < FLT_MAX"
  shows "\<exists>s \<in> set ss. material (snd (SceneIntersect origin direction ss h)) =
           (m_Material s)\<lparr>m_DiffuseColor :=
             smul (tile_color (origin + smul direction (board_distance origin direction))) 0.3\<rparr>"
proof -
  from sphere_loop_recorded [OF assms(2)] obtain s where
    f: "find (\<lambda>s. RayIntersect s origin direction
                  = Some (fst (sphere_loop origin direction ss h))) ss = Some s"
    and i: "snd (sphere_loop origin direction ss h) =
       sphere_hit_info origin direction s (fst (sphere_loop origin direction ss h)) h"
    by blast
  from f have "s \<in> set ss" by (auto simp: find_Some_iff)
  moreover have "material (snd (SceneIntersect origin direction ss h)) =
           (m_Material s)\<lparr>m_DiffuseColor :=
             smul (tile_color (origin + smul direction (board_distance origin direction))) 0.3\<rparr>"
    by (simp add: SceneIntersect_accepted [OF assms(1)] i sphere_hit_info_def)
  ultimately show ?thesis by blast
qed

text \<open>
  C1. The material of a checkerboard hit should have zero weights for specular,
  reflection and refraction, also when a sphere is intersected farther along the ray.
  The program does otherwise. A ray goes straight down from (0, 0, -20); it meets the
  board at distance 4 and, below the board, a sphere of the \<^const>\<open>mirror\<close> material at
  distance 8. The hit reported is the board hit (point (0, -4, -20), normal (0, 1, 0),
  diffuse colour 0.3 times the tile colour), but its material is otherwise the mirror's:
  albedo (0, 10, 0.8, 0), with specular weight 10 and reflection weight 0.8.
\<close>

theorem board_inherits_sphere_material:
  "SceneIntersect (Vec3f 0 0 (- 20)) (Vec3f 0 (- 1) 0)
     [\<lparr>m_Center = Vec3f 0 (- 10) (- 20), m_Radius = 2, m_Material = mirror\<rparr>] Hit_default =
   (True, \<lparr>point = Vec3f 0 (- 4) (- 20), normal = Vec3f 0 1 0,
           material = \<lparr>m_RefractiveIndex = 1, m_Albedo = Vec4f 0 10 0.8 0,
                       m_DiffuseColor = Vec3f 0.3 0.21 0.09, m_SpecularExponent = 1425\<rparr>\<rparr>)"
  by (simp add: scene_defs vec_defs mirror_def vnormalize_def vnorm_axis_y)






section \<open>Reflection\<close>

lemma dot_Reflect_gen: "dot (Reflect d n) n = dot d n - 2 * dot n n * dot d n"
  by (cases d; cases n) (simp add: Reflect_def dot_def smul_def minus_Vec3f_def algebra_simps)

lemma dot_Reflect: "dot n n = 1 \<Longrightarrow> dot (Reflect d n) n = - dot d n"
  by (simp add: dot_Reflect_gen)

text \<open>
  C9. For every direction \<open>d\<close> and every normal \<open>n\<close> of unit length, reflecting twice
  about \<open>n\<close> gives \<open>d\<close> back: \<open>Reflect (Reflect d n) n = d\<close>. In the exact arithmetic of the
  model the equality holds with no tolerance.
\<close>

theorem Reflect_involution:
  assumes "vnorm n = 1"
  shows "Reflect (Reflect d n) n = d"
proof -
  from assms have unit: "dot n n = 1" by (simp add: vnorm_def sqrtf_def)
  have "Reflect (Reflect d n) n = Reflect d n - smul (smul n 2) (- dot d n)"
    by (subst Reflect_def) (simp add: dot_Reflect [OF unit])
  also have "\<dots> = d"
    by (cases d; cases n) (simp add: Reflect_def smul_def minus_Vec3f_def)
  finally show ?thesis .
qed

text \<open>The direction (1, -1, 0) reflected about the normal (0, 1, 0), and back.\<close>

theorem Reflect_involution_witness:
  "vnorm (Vec3f 0 1 0) = 1 \<and>
   Reflect (Vec3f 1 (- 1) 0) (Vec3f 0 1 0) = Vec3f 1 1 0 \<and>
   Reflect (Reflect (Vec3f 1 (- 1) 0) (Vec3f 0 1 0)) (Vec3f 0 1 0) = Vec3f 1 (- 1) 0"
proof -
  have u: "vnorm (Vec3f 0 1 0) = 1" by (simp add: vnorm_axis_y)
  have r: "Reflect (Vec3f 1 (- 1) 0) (Vec3f 0 1 0) = Vec3f 1 1 0"
    by (simp add: Reflect_def vec_defs)
  from Reflect_involution [OF u, of "Vec3f 1 (- 1) 0"] u r show ?thesis by simp
qed

section \<open>Ray casting\<close>

text \<open>
  C6. \<^const>\<open>CastRay\<close> returns exactly the background colour (0.2, 0.5, 0.8) whenever
  the depth is at least 5 or \<^const>\<open>SceneIntersect\<close> reports no hit, whatever the
  scene. It is the only case without recursion: in every other case the result is the
  sum of the four components weighted by the albedo, two of them calls of
  \<^const>\<open>CastRay\<close> at \<open>depth + 1\<close>.
\<close>

theorem CastRay_background:
  "(5 \<le> depth \<or> \<not> fst (SceneIntersect origin direction spheres Hit_default) \<longrightarrow>
      CastRay origin direction spheres lights depth = Vec3f 0.2 0.5 0.8) \<and>
   (depth < 5 \<and> fst (SceneIntersect origin direction spheres Hit_default) \<longrightarrow>
      CastRay origin direction spheres lights depth =
        (let hitInfo = snd (SceneIntersect origin direction spheres Hit_default);
             albedo = m_Albedo (material hitInfo);
             reflectDirection = vnormalize (Reflect direction (normal hitInfo));
             refractDirection = vnormalize (Refract direction (normal hitInfo)
                                   (m_RefractiveIndex (material hitInfo)));
             acc = light_loop direction spheres hitInfo lights
         in smul (smul (m_DiffuseColor (material hitInfo)) (vec4_0 albedo)) (fst acc)
            + smul (smul (Vec3f 1 1 1) (vec4_1 albedo)) (snd acc)
            + smul (CastRay (bias_origin reflectDirection hitInfo) reflectDirection
                      spheres lights (depth + 1)) (vec4_2 albedo)
            + smul (CastRay (bias_origin refractDirection hitInfo) refractDirection
                      spheres lights (depth + 1)) (vec4_3 albedo)))"
  by (subst CastRay.simps, subst (3) CastRay.simps) (auto simp: Let_def)

text \<open>
  At depth 5 a ray that hits a sphere gets the background colour; at depth 0 a ray that
  hits nothing gets it too.
\<close>

theorem CastRay_background_witness:
  "fst (SceneIntersect (Vec3f 0 0 0) (Vec3f 0 0 (- 1))
          [\<lparr>m_Center = Vec3f 0 0 (- 3), m_Radius = 1, m_Material = ivory\<rparr>] Hit_default) \<and>
   CastRay (Vec3f 0 0 0) (Vec3f 0 0 (- 1))
          [\<lparr>m_Center = Vec3f 0 0 (- 3), m_Radius = 1, m_Material = ivory\<rparr>]
          [\<lparr>m_Position = Vec3f 0 10 0, m_Intensity = 1.5\<rparr>] 5 = Vec3f 0.2 0.5 0.8 \<and>
   \<not> fst (SceneIntersect (Vec3f 0 0 0) (Vec3f 0 0 (- 1)) [] Hit_default) \<and>
   CastRay (Vec3f 0 0 0) (Vec3f 0 0 (- 1)) []
          [\<lparr>m_Position = Vec3f 0 10 0, m_Intensity = 1.5\<rparr>] 0 = Vec3f 0.2 0.5 0.8"
proof -
  have h: "fst (SceneIntersect (Vec3f 0 0 0) (Vec3f 0 0 (- 1))
          [\<lparr>m_Center = Vec3f 0 0 (- 3), m_Radius = 1, m_Material = ivory\<rparr>] Hit_default)"
    by (simp add: scene_defs vec_defs)
  have n: "\<not> fst (SceneIntersect (Vec3f 0 0 0) (Vec3f 0 0 (- 1)) [] Hit_default)"
    by (simp add: scene_defs vec_defs)
  from CastRay_background [of 5 "Vec3f 0 0 0" "Vec3f 0 0 (- 1)"
          "[\<lparr>m_Center = Vec3f 0 0 (- 3), m_Radius = 1, m_Material = ivory\<rparr>]"
          "[\<lparr>m_Position = Vec3f 0 10 0, m_Intensity = 1.5\<rparr>]"]
       CastRay_background [of 0 "Vec3f 0 0 0" "Vec3f 0 0 (- 1)" "[]"
          "[\<lparr>m_Position = Vec3f 0 10 0, m_Intensity = 1.5\<rparr>]"]
       h n
  show ?thesis by simp
qed

lemma light_step_shadowed:
  "shadowed spheres hitInfo light \<Longrightarrow> light_step direction spheres hitInfo acc light = acc"
  by (simp add: light_step_def)

lemma light_fold_filter:
  "foldl (light_step direction spheres hitInfo) acc lights =
   foldl (light_step direction spheres hitInfo) acc
     (filter (\<lambda>l. \<not> shadowed spheres hitInfo l) lights)"
  by (induction lights arbitrary: acc) (simp_all add: light_step_shadowed)

text \<open>
  C7. In the loop over the lights, a light whose shadow ray (from the origin offset by
  the bias, toward the light) hits a surface at a distance strictly less than the
  distance to the light adds exactly zero to the diffuse and to the specular intensity:
  the step leaves both as they were, and the whole loop gives what it gives on the
  lights that are not shadowed.
\<close>

theorem shadowed_light_contributes_nothing:
  "(shadowed spheres hitInfo light \<longrightarrow>
      light_step direction spheres hitInfo (diffuseLightIntensity, specularLightIntensity) light
        = (diffuseLightIntensity, specularLightIntensity)) \<and>
   light_loop direction spheres hitInfo lights =
     light_loop direction spheres hitInfo (filter (\<lambda>l. \<not> shadowed spheres hitInfo l) lights)"
  using light_fold_filter [of direction spheres hitInfo "(0, 0)" lights]
  by (simp add: light_step_shadowed light_loop_def)

text \<open>
  A point of the board at (0, -4, -20) and a light at (0, 0, -20) straight above it. With
  a sphere of radius 1 centred at (0, -2, -20) in between, the light is shadowed and
  both intensities stay 0; with no sphere the same light adds 1.5 to each.
\<close>

theorem shadowed_light_contributes_nothing_witness:
  "shadowed [\<lparr>m_Center = Vec3f 0 (- 2) (- 20), m_Radius = 1, m_Material = ivory\<rparr>]
      \<lparr>point = Vec3f 0 (- 4) (- 20), normal = Vec3f 0 1 0, material = Material_default\<rparr>
      \<lparr>m_Position = Vec3f 0 0 (- 20), m_Intensity = 1.5\<rparr> \<and>
   light_step (Vec3f 0 (- 1) 0)
      [\<lparr>m_Center = Vec3f 0 (- 2) (- 20), m_Radius = 1, m_Material = ivory\<rparr>]
      \<lparr>point = Vec3f 0 (- 4) (- 20), normal = Vec3f 0 1 0, material = Material_default\<rparr>
      (0, 0) \<lparr>m_Position = Vec3f 0 0 (- 20), m_Intensity = 1.5\<rparr> = (0, 0) \<and>
   light_step (Vec3f 0 (- 1) 0) []
      \<lparr>point = Vec3f 0 (- 4) (- 20), normal = Vec3f 0 1 0, material = Material_default\<rparr>
      (0, 0) \<lparr>m_Position = Vec3f 0 0 (- 20), m_Intensity = 1.5\<rparr> = (1.5, 1.5)"
proof -
  let ?h = "\<lparr>point = Vec3f 0 (- 4) (- 20), normal = Vec3f 0 1 0, material = Material_default\<rparr>"
  let ?l = "\<lparr>m_Position = Vec3f 0 0 (- 20), m_Intensity = 1.5\<rparr>"
  let ?ss = "[\<lparr>m_Center = Vec3f 0 (- 2) (- 20), m_Radius = 1, m_Material = ivory\<rparr>]"
  have s: "shadowed ?ss ?h ?l"
    by (simp add: shadowed_def bias_origin_def scene_defs vec_defs vnormalize_def vnorm_axis_y)
  have n: "\<not> shadowed [] ?h ?l"
    by (simp add: shadowed_def bias_origin_def scene_defs vec_defs vnormalize_def vnorm_axis_y)
  have e: "m_SpecularExponent Material_default = 0" by (simp add: Material_default_def)
  have u: "light_step (Vec3f 0 (- 1) 0) [] ?h (0, 0) ?l = (1.5, 1.5)"
    using n
    by (simp add: light_step_def e Let_def Reflect_def powf_def vec_defs vnormalize_def
          vnorm_axis_y)
  from shadowed_light_contributes_nothing [of ?ss ?h ?l "Vec3f 0 (- 1) 0" 0 0 "[]"] s u
  show ?thesis by simp
qed

end
